theory Spec2Isabelle
  imports Complex_Main "HOL-Library.Word"
begin

section \<open>Scan registration: configuration, point labels and IMU states\<close>

text \<open>
  A shallow embedding of \<^verbatim>\<open>src/lib/ScanRegistration.h\<close> of loam_velodyne.

  Conventions of the embedding:
  \<^item> a C++ \<^verbatim>\<open>int\<close> is a 32-bit word, read as two's complement by \<open>sint\<close>;
    \<open>*\<close> on words wraps around, and it is the mathematical product whenever that
    product fits into 32 bits;
  \<^item> a \<^verbatim>\<open>float\<close> that is a configuration parameter is a value of the type \<open>float\<close>
    below: a real number, an infinity or NaN, because the range tests of
    \<^verbatim>\<open>parseParams\<close> answer differently for NaN; rounding is outside the model;
  \<^item> a \<^verbatim>\<open>float\<close> in the arithmetic of \<^verbatim>\<open>interpolate\<close> is idealised as a \<open>real\<close>, and
    \<^verbatim>\<open>M_PI\<close> as \<open>pi\<close>: rounding, infinities and NaN are outside the model there;
  \<^item> a member function that mutates its object takes the object and returns the new one;
  \<^item> \<^verbatim>\<open>ROS_ERROR\<close> only logs and is left out.
\<close>

type_synonym int32 = "32 word"

subsection \<open>Floating-point parameters\<close>

text \<open>
  The values of a \<^verbatim>\<open>float\<close>, as far as a comparison tells them apart: the finite ones
  by the real number they stand for, the two infinities, and NaN.
\<close>

datatype float = Finite real | PosInf | NegInf | NaN

text \<open>
  \<^verbatim>\<open>x < c\<close> for a \<^verbatim>\<open>float\<close> \<open>x\<close> and a finite constant \<open>c\<close>, as IEEE 754 has it: every
  comparison with NaN is false.
\<close>

fun float_lt :: "float \<Rightarrow> real \<Rightarrow> bool" where
  "float_lt (Finite x) c = (x < c)"
| "float_lt PosInf c = False"
| "float_lt NegInf c = True"
| "float_lt NaN c = False"

text \<open>\<^verbatim>\<open>x >= c\<close> likewise: NaN is not at least anything.\<close>

fun float_ge :: "float \<Rightarrow> real \<Rightarrow> bool" where
  "float_ge (Finite x) c = (c \<le> x)"
| "float_ge PosInf c = True"
| "float_ge NegInf c = False"
| "float_ge NaN c = False"

subsection \<open>Point labels\<close>

datatype PointLabel = CORNER_SHARP | CORNER_LESS_SHARP | SURFACE_LESS_FLAT | SURFACE_FLAT

text \<open>The enumerator values, as the \<^verbatim>\<open>enum\<close> declaration assigns them.\<close>

fun PointLabel_value :: "PointLabel \<Rightarrow> int" where
  "PointLabel_value CORNER_SHARP = 2"
| "PointLabel_value CORNER_LESS_SHARP = 1"
| "PointLabel_value SURFACE_LESS_FLAT = 0"
| "PointLabel_value SURFACE_FLAT = - 1"

subsection \<open>Registration parameters\<close>

record RegistrationParams =
  nFeatureRegions :: int32
  curvatureRegion :: int32
  maxCornerSharp :: int32
  maxCornerLessSharp :: int32
  maxSurfaceFlat :: int32
  lessFlatFilterSize :: float
  surfaceCurvatureThreshold :: float

text \<open>
  The constructor. Its arguments are, in this order, \<^verbatim>\<open>nFeatureRegions_\<close>,
  \<^verbatim>\<open>curvatureRegion_\<close>, \<^verbatim>\<open>maxCornerSharp_\<close>, \<^verbatim>\<open>maxSurfaceFlat_\<close>,
  \<^verbatim>\<open>lessFlatFilterSize_\<close> and \<^verbatim>\<open>surfaceCurvatureThreshold_\<close>; a name cannot end
  in an underscore here, so each is written with a prime.
\<close>

definition RegistrationParams_ctor ::
  "int32 \<Rightarrow> int32 \<Rightarrow> int32 \<Rightarrow> int32 \<Rightarrow> float \<Rightarrow> float \<Rightarrow> RegistrationParams" where
  "RegistrationParams_ctor nFeatureRegions' curvatureRegion' maxCornerSharp' maxSurfaceFlat'
       lessFlatFilterSize' surfaceCurvatureThreshold' =
     \<lparr> nFeatureRegions = nFeatureRegions',
       curvatureRegion = curvatureRegion',
       maxCornerSharp = maxCornerSharp',
       maxCornerLessSharp = 10 * maxCornerSharp',
       maxSurfaceFlat = maxSurfaceFlat',
       lessFlatFilterSize = lessFlatFilterSize',
       surfaceCurvatureThreshold = surfaceCurvatureThreshold' \<rparr>"

text \<open>The constructor called with no argument: every parameter takes its default.\<close>

definition RegistrationParams_default :: RegistrationParams where
  "RegistrationParams_default = RegistrationParams_ctor 6 5 2 4 (Finite 0.2) (Finite 0.1)"

text \<open>
  The node handle belongs to ROS, not to this repository. Of a handle the code uses only
  \<^verbatim>\<open>getParam(name, out)\<close>, at an \<^verbatim>\<open>int\<close> and at a \<^verbatim>\<open>float\<close>: \<open>Some v\<close> stands for the
  call returning true with \<open>v\<close> stored in \<^verbatim>\<open>out\<close>, \<open>None\<close> for it returning false.
\<close>

record NodeHandle =
  getParam_int :: "string \<Rightarrow> int32 option"
  getParam_float :: "string \<Rightarrow> float option"

text \<open>
  \<^verbatim>\<open>parseParams\<close>: the seven blocks in the order of the source. The result is the
  returned flag and the parameters as the call leaves them.
\<close>

definition parseParams :: "NodeHandle \<Rightarrow> RegistrationParams \<Rightarrow> bool \<times> RegistrationParams" where
  "parseParams nh this =
    (let success = True;
         (success, this) =
            (case getParam_int nh ''featureRegions'' of
               Some iParam \<Rightarrow>
                 if sint iParam < 1 then (False, this)
                 else (success, this\<lparr>nFeatureRegions := iParam\<rparr>)
             | None \<Rightarrow> (success, this));
         (success, this) =
            (case getParam_int nh ''curvatureRegion'' of
               Some iParam \<Rightarrow>
                 if sint iParam < 1 then (False, this)
                 else (success, this\<lparr>curvatureRegion := iParam\<rparr>)
             | None \<Rightarrow> (success, this));
         (success, this) =
            (case getParam_int nh ''maxCornerSharp'' of
               Some iParam \<Rightarrow>
                 if sint iParam < 1 then (False, this)
                 else (success, this\<lparr>maxCornerSharp := iParam, maxCornerLessSharp := 10 * iParam\<rparr>)
             | None \<Rightarrow> (success, this));
         (success, this) =
            (case getParam_int nh ''maxCornerLessSharp'' of
               Some iParam \<Rightarrow>
                 if sint iParam < sint (maxCornerSharp this) then (False, this)
                 else (success, this\<lparr>maxCornerLessSharp := iParam\<rparr>)
             | None \<Rightarrow> (success, this));
         (success, this) =
            (case getParam_int nh ''maxSurfaceFlat'' of
               Some iParam \<Rightarrow>
                 if sint iParam < 1 then (False, this)
                 else (success, this\<lparr>maxSurfaceFlat := iParam\<rparr>)
             | None \<Rightarrow> (success, this));
         (success, this) =
            (case getParam_float nh ''surfaceCurvatureThreshold'' of
               Some fParam \<Rightarrow>
                 if float_lt fParam 0.001 then (False, this)
                 else (success, this\<lparr>surfaceCurvatureThreshold := fParam\<rparr>)
             | None \<Rightarrow> (success, this));
         (success, this) =
            (case getParam_float nh ''lessFlatFilterSize'' of
               Some fParam \<Rightarrow>
                 if float_lt fParam 0.001 then (False, this)
                 else (success, this\<lparr>lessFlatFilterSize := fParam\<rparr>)
             | None \<Rightarrow> (success, this))
     in (success, this))"

text \<open>
  The specification's reading of the ranges, to compare \<^verbatim>\<open>parseParams\<close> with: a
  parameter that is not specified is in order, a specified one is in order when it is at
  least its lower bound.
\<close>

definition int_param_ok :: "NodeHandle \<Rightarrow> string \<Rightarrow> int \<Rightarrow> bool" where
  "int_param_ok nh name lo = (case getParam_int nh name of None \<Rightarrow> True | Some v \<Rightarrow> lo \<le> sint v)"

definition float_param_ok :: "NodeHandle \<Rightarrow> string \<Rightarrow> real \<Rightarrow> bool" where
  "float_param_ok nh name lo =
     (case getParam_float nh name of None \<Rightarrow> True | Some v \<Rightarrow> float_ge v lo)"

text \<open>
  The bound of \<^verbatim>\<open>maxCornerLessSharp\<close> is \<^verbatim>\<open>maxCornerSharp\<close>: the value specified on the
  handle when there is one, the configuration's value otherwise.
\<close>

definition all_specified_valid :: "NodeHandle \<Rightarrow> RegistrationParams \<Rightarrow> bool" where
  "all_specified_valid nh this \<longleftrightarrow>
     int_param_ok nh ''featureRegions'' 1 \<and>
     int_param_ok nh ''curvatureRegion'' 1 \<and>
     int_param_ok nh ''maxCornerSharp'' 1 \<and>
     int_param_ok nh ''maxCornerLessSharp''
       (sint (case getParam_int nh ''maxCornerSharp'' of
                Some m \<Rightarrow> m | None \<Rightarrow> maxCornerSharp this)) \<and>
     int_param_ok nh ''maxSurfaceFlat'' 1 \<and>
     float_param_ok nh ''surfaceCurvatureThreshold'' 0.001 \<and>
     float_param_ok nh ''lessFlatFilterSize'' 0.001"

text \<open>
  What the range tests of \<^verbatim>\<open>parseParams\<close> themselves let through: a specified
  parameter passes when the test \<^verbatim>\<open>param < bound\<close> is false. For an \<^verbatim>\<open>int\<close> that is to
  be at least the bound, which \<open>int_param_ok\<close> says; for a \<^verbatim>\<open>float\<close> it is not the same,
  since NaN passes.
\<close>

definition float_param_passes :: "NodeHandle \<Rightarrow> string \<Rightarrow> real \<Rightarrow> bool" where
  "float_param_passes nh name lo =
     (case getParam_float nh name of None \<Rightarrow> True | Some v \<Rightarrow> \<not> float_lt v lo)"

definition all_tests_pass :: "NodeHandle \<Rightarrow> RegistrationParams \<Rightarrow> bool" where
  "all_tests_pass nh this \<longleftrightarrow>
     int_param_ok nh ''featureRegions'' 1 \<and>
     int_param_ok nh ''curvatureRegion'' 1 \<and>
     int_param_ok nh ''maxCornerSharp'' 1 \<and>
     int_param_ok nh ''maxCornerLessSharp''
       (sint (case getParam_int nh ''maxCornerSharp'' of
                Some m \<Rightarrow> m | None \<Rightarrow> maxCornerSharp this)) \<and>
     int_param_ok nh ''maxSurfaceFlat'' 1 \<and>
     float_param_passes nh ''surfaceCurvatureThreshold'' 0.001 \<and>
     float_param_passes nh ''lessFlatFilterSize'' 0.001"

text \<open>No \<^verbatim>\<open>float\<close> parameter is specified as NaN.\<close>

definition no_NaN_specified :: "NodeHandle \<Rightarrow> bool" where
  "no_NaN_specified nh \<longleftrightarrow>
     getParam_float nh ''surfaceCurvatureThreshold'' \<noteq> Some NaN \<and>
     getParam_float nh ''lessFlatFilterSize'' \<noteq> Some NaN"

text \<open>
  What one block of \<^verbatim>\<open>parseParams\<close> leaves in its field: the specified value when it
  is specified and its test does not reject it, the field's old value otherwise.
\<close>

definition accepted_int :: "NodeHandle \<Rightarrow> string \<Rightarrow> int \<Rightarrow> int32 \<Rightarrow> int32" where
  "accepted_int nh name lo old =
     (case getParam_int nh name of None \<Rightarrow> old | Some v \<Rightarrow> if sint v < lo then old else v)"

definition accepted_float :: "NodeHandle \<Rightarrow> string \<Rightarrow> real \<Rightarrow> float \<Rightarrow> float" where
  "accepted_float nh name lo old =
     (case getParam_float nh name of
        None \<Rightarrow> old
      | Some v \<Rightarrow> if float_lt v lo then old else v)"

subsection \<open>IMU states\<close>

text \<open>
  Modelled from the spec: \<^verbatim>\<open>Angle\<close> and \<^verbatim>\<open>Vector3\<close> come from \<^verbatim>\<open>math_utils.h\<close>, which
  is not among the sources. The specification has an angle as a scalar read in radians
  by \<^verbatim>\<open>rad()\<close>, with the invariant that \<^verbatim>\<open>rad()\<close> lies in \<open>(-\<pi>, \<pi>]\<close>, and a vector as
  three real components with addition and multiplication by a scalar. Assigning a
  \<^verbatim>\<open>float\<close> to an angle, as \<^verbatim>\<open>interpolate\<close> does, stores that number of radians.
\<close>

datatype Angle = Angle (rad: real)

text \<open>
  Modelled from the spec: the invariant of an angle, \<^verbatim>\<open>rad()\<close> in \<open>(-\<pi>, \<pi>]\<close>. The type
  does not enforce it; where a property needs it, it is a hypothesis.
\<close>

definition Angle_inv :: "Angle \<Rightarrow> bool" where
  "Angle_inv a \<longleftrightarrow> - pi < rad a \<and> rad a \<le> pi"

text \<open>
  Modelled from the spec: a vector of three real components, its multiplication by a
  scalar (\<^verbatim>\<open>v * c\<close> in the source) and its addition (\<^verbatim>\<open>v + w\<close>), both componentwise.
\<close>

datatype Vector3 = Vector3 (vec_x: real) (vec_y: real) (vec_z: real)

definition Vector3_scale :: "Vector3 \<Rightarrow> real \<Rightarrow> Vector3" where
  "Vector3_scale v c = Vector3 (vec_x v * c) (vec_y v * c) (vec_z v * c)"

definition Vector3_add :: "Vector3 \<Rightarrow> Vector3 \<Rightarrow> Vector3" where
  "Vector3_add v w = Vector3 (vec_x v + vec_x w) (vec_y v + vec_y w) (vec_z v + vec_z w)"

text \<open>\<^verbatim>\<open>ros::Time\<close>: seconds and nanoseconds, two unsigned 32-bit fields.\<close>

record Time =
  sec :: "32 word"
  nsec :: "32 word"

record IMUState =
  stamp :: Time
  roll :: Angle
  pitch :: Angle
  yaw :: Angle
  position :: Vector3
  velocity :: Vector3
  acceleration :: Vector3

text \<open>
  \<^verbatim>\<open>interpolate\<close> writes into the state it is given by reference: the model takes that
  state as its last argument and returns it updated, one assignment after the other.
  Every assignment reads the same field of \<^verbatim>\<open>start\<close> and \<^verbatim>\<open>end\<close> that it writes in
  \<^verbatim>\<open>result\<close>, so the outcome is the same when \<^verbatim>\<open>result\<close> is one of them.
\<close>

definition interpolate :: "IMUState \<Rightarrow> IMUState \<Rightarrow> real \<Rightarrow> IMUState \<Rightarrow> IMUState" where
  "interpolate start end' ratio result =
    (let invRatio = 1 - ratio;
         result = result\<lparr>roll := Angle (rad (roll start) * invRatio + rad (roll end') * ratio)\<rparr>;
         result = result\<lparr>pitch := Angle (rad (pitch start) * invRatio + rad (pitch end') * ratio)\<rparr>;
         result =
           (if rad (yaw start) - rad (yaw end') > pi then
              result\<lparr>yaw := Angle (rad (yaw start) * invRatio + (rad (yaw end') + 2 * pi) * ratio)\<rparr>
            else if rad (yaw start) - rad (yaw end') < - pi then
              result\<lparr>yaw := Angle (rad (yaw start) * invRatio + (rad (yaw end') - 2 * pi) * ratio)\<rparr>
            else
              result\<lparr>yaw := Angle (rad (yaw start) * invRatio + rad (yaw end') * ratio)\<rparr>);
         result = result\<lparr>velocity :=
           Vector3_add (Vector3_scale (velocity start) invRatio) (Vector3_scale (velocity end') ratio)\<rparr>;
         result = result\<lparr>position :=
           Vector3_add (Vector3_scale (position start) invRatio) (Vector3_scale (position end') ratio)\<rparr>
     in result)"

subsection \<open>The scan registration object\<close>

text \<open>
  Modelled from the spec: the header declares the constructor of \<^verbatim>\<open>ScanRegistration\<close>
  with its default arguments, but its body and \<^verbatim>\<open>CircularBuffer.h\<close> are not among the
  sources. The specification has the inertial history as a bounded sequence of inertial
  samples of capacity C, which is the constructor's \<^verbatim>\<open>imuHistorySize\<close>, and empty at
  first. Of the object only the fields that the constructor's arguments fill are kept.
\<close>

record 'a CircularBuffer =
  capacity :: "64 word"
  buffer :: "'a list"

text \<open>
  Modelled from the spec: a new buffer has the capacity it is asked for, a \<^verbatim>\<open>size_t\<close>,
  and holds nothing.
\<close>

definition CircularBuffer_ctor :: "64 word \<Rightarrow> 'a CircularBuffer" where
  "CircularBuffer_ctor cap = \<lparr> capacity = cap, buffer = [] \<rparr>"

record ScanRegistration =
  nScans :: "16 word"
  scanPeriod :: real
  config :: RegistrationParams
  imuHistory :: "IMUState CircularBuffer"

text \<open>
  Modelled from the spec: the constructor keeps its arguments and creates the inertial
  history with capacity \<^verbatim>\<open>imuHistorySize\<close>. The order and the types of the arguments are
  those of the declaration in the header.
\<close>

definition ScanRegistration_ctor ::
  "real \<Rightarrow> 16 word \<Rightarrow> 64 word \<Rightarrow> RegistrationParams \<Rightarrow> ScanRegistration" where
  "ScanRegistration_ctor scanPeriod' nScans' imuHistorySize config' =
     \<lparr> nScans = nScans',
       scanPeriod = scanPeriod',
       config = config',
       imuHistory = CircularBuffer_ctor imuHistorySize \<rparr>"

text \<open>
  The calls that leave \<^verbatim>\<open>imuHistorySize\<close> out, with the default arguments of the
  declaration in the header: \<^verbatim>\<open>nScans = 0\<close>, \<^verbatim>\<open>imuHistorySize = 200\<close> and
  \<^verbatim>\<open>config = RegistrationParams()\<close>. Default arguments are filled from the right, so
  such a call leaves \<^verbatim>\<open>config\<close> out too, and gives either the scan period alone or the
  scan period and the number of scans.
\<close>

definition ScanRegistration_ctor1 :: "real \<Rightarrow> ScanRegistration" where
  "ScanRegistration_ctor1 scanPeriod' =
     ScanRegistration_ctor scanPeriod' 0 200 RegistrationParams_default"

definition ScanRegistration_ctor2 :: "real \<Rightarrow> 16 word \<Rightarrow> ScanRegistration" where
  "ScanRegistration_ctor2 scanPeriod' nScans' =
     ScanRegistration_ctor scanPeriod' nScans' 200 RegistrationParams_default"

section \<open>Properties\<close>

subsection \<open>Auxiliary facts\<close>

text \<open>
  \<^verbatim>\<open>parseParams\<close> in closed form. The flag and the fields do not depend on one another,
  except that the block of \<^verbatim>\<open>maxCornerLessSharp\<close> reads the \<^verbatim>\<open>maxCornerSharp\<close> that the
  block before it has left.
\<close>

lemma parseParams_struct:
  "parseParams nh p =
     (all_tests_pass nh p,
      p\<lparr> nFeatureRegions := accepted_int nh ''featureRegions'' 1 (nFeatureRegions p),
         curvatureRegion := accepted_int nh ''curvatureRegion'' 1 (curvatureRegion p),
         maxCornerSharp := accepted_int nh ''maxCornerSharp'' 1 (maxCornerSharp p),
         maxCornerLessSharp :=
           accepted_int nh ''maxCornerLessSharp''
             (sint (accepted_int nh ''maxCornerSharp'' 1 (maxCornerSharp p)))
             (case getParam_int nh ''maxCornerSharp'' of
                None \<Rightarrow> maxCornerLessSharp p
              | Some m \<Rightarrow> if sint m < 1 then maxCornerLessSharp p else 10 * m),
         maxSurfaceFlat := accepted_int nh ''maxSurfaceFlat'' 1 (maxSurfaceFlat p),
         surfaceCurvatureThreshold :=
           accepted_float nh ''surfaceCurvatureThreshold'' 0.001 (surfaceCurvatureThreshold p),
         lessFlatFilterSize :=
           accepted_float nh ''lessFlatFilterSize'' 0.001 (lessFlatFilterSize p) \<rparr>)"
  by (cases "getParam_int nh ''featureRegions''"; cases "getParam_int nh ''curvatureRegion''";
      cases "getParam_int nh ''maxCornerSharp''"; cases "getParam_int nh ''maxCornerLessSharp''";
      cases "getParam_int nh ''maxSurfaceFlat''";
      cases "getParam_float nh ''surfaceCurvatureThreshold''";
      cases "getParam_float nh ''lessFlatFilterSize''";
      simp add: parseParams_def all_tests_pass_def int_param_ok_def float_param_passes_def
         accepted_int_def accepted_float_def not_less)

text \<open>
  The tests and the ranges agree on every \<^verbatim>\<open>float\<close> but NaN, so the flag says that every
  specified parameter is in its range whenever no \<^verbatim>\<open>float\<close> parameter is NaN, and a
  call whose specified parameters are all in range returns true in any case.
\<close>

lemma float_lt_iff_not_ge: "v \<noteq> NaN \<Longrightarrow> float_lt v c \<longleftrightarrow> \<not> float_ge v c"
  by (cases v) auto

lemma float_ge_not_lt: "float_ge v c \<Longrightarrow> \<not> float_lt v c"
  by (cases v) auto

lemma float_param_passes_iff_ok:
  "getParam_float nh name \<noteq> Some NaN \<Longrightarrow>
     float_param_passes nh name lo \<longleftrightarrow> float_param_ok nh name lo"
  by (cases "getParam_float nh name")
     (simp_all add: float_param_passes_def float_param_ok_def float_lt_iff_not_ge)

lemma all_tests_pass_iff_valid:
  "no_NaN_specified nh \<Longrightarrow> all_tests_pass nh p \<longleftrightarrow> all_specified_valid nh p"
  by (simp add: no_NaN_specified_def all_tests_pass_def all_specified_valid_def
        float_param_passes_iff_ok)

lemma float_param_ok_passes: "float_param_ok nh name lo \<Longrightarrow> float_param_passes nh name lo"
  by (cases "getParam_float nh name")
     (simp_all add: float_param_passes_def float_param_ok_def float_ge_not_lt)

lemma valid_imp_all_tests_pass: "all_specified_valid nh p \<Longrightarrow> all_tests_pass nh p"
  by (simp add: all_tests_pass_def all_specified_valid_def float_param_ok_passes)

lemma parseParams_true_iff_tests_pass: "fst (parseParams nh p) \<longleftrightarrow> all_tests_pass nh p"
  by (simp add: parseParams_struct)

lemma parseParams_valid_returns_true: "all_specified_valid nh p \<Longrightarrow> fst (parseParams nh p)"
  by (simp add: parseParams_true_iff_tests_pass valid_imp_all_tests_pass)

lemma parseParams_true_iff_valid_without_NaN:
  "no_NaN_specified nh \<Longrightarrow> fst (parseParams nh p) \<longleftrightarrow> all_specified_valid nh p"
  by (simp add: parseParams_true_iff_tests_pass all_tests_pass_iff_valid)

text \<open>Ten times an \<^verbatim>\<open>int\<close> is the mathematical product when that fits into 32 bits.\<close>

lemma sint_times10:
  fixes m :: int32
  assumes "- (2 ^ 31) \<le> 10 * sint m" "10 * sint m < 2 ^ 31"
  shows "sint (10 * m) = 10 * sint m"
proof -
  have "sint (10 * m) = signed_take_bit 31 (sint (10 :: int32) * sint m)"
    by (simp add: sint_word_ariths)
  also have "\<dots> = signed_take_bit 31 (10 * sint m)"
    by simp
  also have "\<dots> = 10 * sint m"
    using assms by (simp add: signed_take_bit_int_eq_self)
  finally show ?thesis .
qed

text \<open>
  The two wrapped blends of \<^verbatim>\<open>interpolate\<close>, as facts about real numbers. With both
  angles in \<open>(-\<pi>, \<pi>]\<close> and more than \<open>\<pi>\<close> apart, the blend moves away from \<open>y0\<close> by
  \<open>r\<close> times the length of the shorter arc, and no angle equal to it modulo \<open>2\<pi>\<close> lies
  strictly between the two angles.
\<close>

lemma blend_towards_upper:
  fixes y0 y1 r :: real
  assumes "- pi < y1" "y0 \<le> pi" "pi < y0 - y1" "0 \<le> r" "r \<le> 1"
  shows "\<bar>(y0 * (1 - r) + (y1 + 2 * pi) * r) - y0\<bar> = r * (2 * pi - \<bar>y0 - y1\<bar>)"
    and "\<bar>(y0 * (1 - r) + (y1 + 2 * pi) * r) - y0\<bar> < pi"
    and "\<not> (min y0 y1 < (y0 * (1 - r) + (y1 + 2 * pi) * r) + 2 * pi * of_int k \<and>
            (y0 * (1 - r) + (y1 + 2 * pi) * r) + 2 * pi * of_int k < max y0 y1)"
proof -
  define d where "d = y1 + 2 * pi - y0"
  have d: "0 < d" "d < pi" using assms by (simp_all add: d_def)
  have th: "y0 * (1 - r) + (y1 + 2 * pi) * r = y0 + r * d"
    by (simp add: d_def algebra_simps)
  have rd0: "0 \<le> r * d" using assms d by simp
  have "r * d \<le> 1 * d" using assms d by (intro mult_right_mono) simp_all
  then have rd1: "r * d \<le> d" by simp
  have dabs: "d = 2 * pi - \<bar>y0 - y1\<bar>" using assms by (simp add: d_def)
  show "\<bar>(y0 * (1 - r) + (y1 + 2 * pi) * r) - y0\<bar> = r * (2 * pi - \<bar>y0 - y1\<bar>)"
    using rd0 by (simp add: th dabs [symmetric])
  show "\<bar>(y0 * (1 - r) + (y1 + 2 * pi) * r) - y0\<bar> < pi"
    unfolding th using rd0 rd1 d by linarith
  have mm: "min y0 y1 = y1" "max y0 y1 = y0" using assms by simp_all
  show "\<not> (min y0 y1 < (y0 * (1 - r) + (y1 + 2 * pi) * r) + 2 * pi * of_int k \<and>
            (y0 * (1 - r) + (y1 + 2 * pi) * r) + 2 * pi * of_int k < max y0 y1)"
  proof (cases "0 \<le> k")
    case True
    then have "0 \<le> 2 * pi * of_int k" by simp
    then have "y0 \<le> y0 + r * d + 2 * pi * of_int k" using rd0 by linarith
    then show ?thesis by (simp add: th mm)
  next
    case False
    then have "(of_int k :: real) \<le> - 1" by linarith
    then have "2 * pi * of_int k \<le> 2 * pi * (- 1)" by (intro mult_left_mono) simp_all
    moreover have "y1 = y0 - 2 * pi + d" by (simp add: d_def)
    ultimately have "y0 + r * d + 2 * pi * of_int k \<le> y1" using rd1 by linarith
    then show ?thesis by (simp add: th mm)
  qed
qed

lemma blend_towards_lower:
  fixes y0 y1 r :: real
  assumes "- pi < y0" "y1 \<le> pi" "y0 - y1 < - pi" "0 \<le> r" "r \<le> 1"
  shows "\<bar>(y0 * (1 - r) + (y1 - 2 * pi) * r) - y0\<bar> = r * (2 * pi - \<bar>y0 - y1\<bar>)"
    and "\<bar>(y0 * (1 - r) + (y1 - 2 * pi) * r) - y0\<bar> < pi"
    and "\<not> (min y0 y1 < (y0 * (1 - r) + (y1 - 2 * pi) * r) + 2 * pi * of_int k \<and>
            (y0 * (1 - r) + (y1 - 2 * pi) * r) + 2 * pi * of_int k < max y0 y1)"
proof -
  define d where "d = y0 + 2 * pi - y1"
  have d: "0 < d" "d < pi" using assms by (simp_all add: d_def)
  have th: "y0 * (1 - r) + (y1 - 2 * pi) * r = y0 - r * d"
    by (simp add: d_def algebra_simps)
  have rd0: "0 \<le> r * d" using assms d by simp
  have "r * d \<le> 1 * d" using assms d by (intro mult_right_mono) simp_all
  then have rd1: "r * d \<le> d" by simp
  have dabs: "d = 2 * pi - \<bar>y0 - y1\<bar>" using assms by (simp add: d_def)
  show "\<bar>(y0 * (1 - r) + (y1 - 2 * pi) * r) - y0\<bar> = r * (2 * pi - \<bar>y0 - y1\<bar>)"
    using rd0 by (simp add: th dabs [symmetric])
  show "\<bar>(y0 * (1 - r) + (y1 - 2 * pi) * r) - y0\<bar> < pi"
    unfolding th using rd0 rd1 d by linarith
  have mm: "min y0 y1 = y0" "max y0 y1 = y1" using assms by simp_all
  show "\<not> (min y0 y1 < (y0 * (1 - r) + (y1 - 2 * pi) * r) + 2 * pi * of_int k \<and>
            (y0 * (1 - r) + (y1 - 2 * pi) * r) + 2 * pi * of_int k < max y0 y1)"
  proof (cases "k \<le> 0")
    case True
    then have "(of_int k :: real) \<le> 0" by simp
    then have "2 * pi * of_int k \<le> 2 * pi * 0" by (intro mult_left_mono) simp_all
    then have "y0 - r * d + 2 * pi * of_int k \<le> y0" using rd0 by linarith
    then show ?thesis by (simp add: th mm)
  next
    case False
    then have "1 \<le> (of_int k :: real)" by linarith
    then have "2 * pi * 1 \<le> 2 * pi * of_int k" by (intro mult_left_mono) simp_all
    moreover have "y1 = y0 + 2 * pi - d" by (simp add: d_def)
    ultimately have "y1 \<le> y0 - r * d + 2 * pi * of_int k" using rd1 by linarith
    then show ?thesis by (simp add: th mm)
  qed
qed

lemma interpolate_yaw_rad:
  "rad (yaw (interpolate s e r res)) =
     (if rad (yaw s) - rad (yaw e) > pi then
        rad (yaw s) * (1 - r) + (rad (yaw e) + 2 * pi) * r
      else if rad (yaw s) - rad (yaw e) < - pi then
        rad (yaw s) * (1 - r) + (rad (yaw e) - 2 * pi) * r
      else rad (yaw s) * (1 - r) + rad (yaw e) * r)"
  by (simp add: interpolate_def Let_def)

subsection \<open>Parsing the parameters\<close>

text \<open>
  Against C1 as it is stated. With \<^verbatim>\<open>featureRegions\<close> = 10, which is in range, and
  \<^verbatim>\<open>curvatureRegion\<close> = 0, which is not, on a default configuration, \<^verbatim>\<open>parseParams\<close>
  returns false and yet leaves 10 in \<^verbatim>\<open>nFeatureRegions\<close>, where 6 was: the update is
  not rejected as a whole.
\<close>

theorem parseParams_atomic_counterexample:
  "(let nh = \<lparr> getParam_int = [''featureRegions'' \<mapsto> 10, ''curvatureRegion'' \<mapsto> 0],
               getParam_float = Map.empty \<rparr>
    in \<not> all_specified_valid nh RegistrationParams_default \<and>
       fst (parseParams nh RegistrationParams_default) = False \<and>
       nFeatureRegions RegistrationParams_default = 6 \<and>
       nFeatureRegions (snd (parseParams nh RegistrationParams_default)) = 10)"
  by (simp add: Let_def parseParams_def all_specified_valid_def int_param_ok_def
        RegistrationParams_default_def RegistrationParams_ctor_def)

text \<open>
  C1, amended. If at least one specified parameter violates its range, and no \<^verbatim>\<open>float\<close>
  parameter is NaN, \<^verbatim>\<open>parseParams\<close> returns false, and the update is applied parameter
  by parameter: a field keeps its prior value when its own parameter is not specified
  or out of range, and takes the specified value otherwise. \<^verbatim>\<open>maxCornerLessSharp\<close> is
  judged against the \<^verbatim>\<open>maxCornerSharp\<close> that the call leaves, and where its own parameter
  is not accepted it holds ten times an accepted \<^verbatim>\<open>maxCornerSharp\<close> parameter, or its
  prior value when there is none. What the call does with a NaN is left open here.
\<close>

theorem parseParams_invalid_partial_update:
  assumes "\<not> all_specified_valid nh p" and "no_NaN_specified nh"
  shows "fst (parseParams nh p) = False \<and>
    nFeatureRegions (snd (parseParams nh p)) =
      accepted_int nh ''featureRegions'' 1 (nFeatureRegions p) \<and>
    curvatureRegion (snd (parseParams nh p)) =
      accepted_int nh ''curvatureRegion'' 1 (curvatureRegion p) \<and>
    maxCornerSharp (snd (parseParams nh p)) =
      accepted_int nh ''maxCornerSharp'' 1 (maxCornerSharp p) \<and>
    maxCornerLessSharp (snd (parseParams nh p)) =
      accepted_int nh ''maxCornerLessSharp'' (sint (maxCornerSharp (snd (parseParams nh p))))
        (case getParam_int nh ''maxCornerSharp'' of
           None \<Rightarrow> maxCornerLessSharp p
         | Some m \<Rightarrow> if sint m < 1 then maxCornerLessSharp p else 10 * m) \<and>
    maxSurfaceFlat (snd (parseParams nh p)) =
      accepted_int nh ''maxSurfaceFlat'' 1 (maxSurfaceFlat p) \<and>
    surfaceCurvatureThreshold (snd (parseParams nh p)) =
      accepted_float nh ''surfaceCurvatureThreshold'' 0.001 (surfaceCurvatureThreshold p) \<and>
    lessFlatFilterSize (snd (parseParams nh p)) =
      accepted_float nh ''lessFlatFilterSize'' 0.001 (lessFlatFilterSize p)"
proof -
  from assms have "\<not> all_tests_pass nh p"
    by (simp add: all_tests_pass_iff_valid)
  then show ?thesis
    by (simp add: parseParams_struct)
qed

theorem parseParams_invalid_partial_update_witness:
  "(let nh = \<lparr> getParam_int = [''featureRegions'' \<mapsto> 10, ''curvatureRegion'' \<mapsto> 0],
               getParam_float = [''lessFlatFilterSize'' \<mapsto> Finite 0.5] \<rparr>
    in \<not> all_specified_valid nh RegistrationParams_default \<and>
       no_NaN_specified nh \<and>
       fst (parseParams nh RegistrationParams_default) = False \<and>
       nFeatureRegions (snd (parseParams nh RegistrationParams_default)) = 10 \<and>
       curvatureRegion (snd (parseParams nh RegistrationParams_default)) =
         curvatureRegion RegistrationParams_default \<and>
       maxCornerLessSharp (snd (parseParams nh RegistrationParams_default)) =
         maxCornerLessSharp RegistrationParams_default \<and>
       lessFlatFilterSize (snd (parseParams nh RegistrationParams_default)) = Finite 0.5)"
proof -
  let ?nh = "\<lparr> getParam_int = [''featureRegions'' \<mapsto> 10, ''curvatureRegion'' \<mapsto> 0],
               getParam_float = [''lessFlatFilterSize'' \<mapsto> Finite 0.5] \<rparr>"
  have h: "\<not> all_specified_valid ?nh RegistrationParams_default"
    by (simp add: all_specified_valid_def int_param_ok_def)
  have n: "no_NaN_specified ?nh"
    by (simp add: no_NaN_specified_def)
  from parseParams_invalid_partial_update [OF h n] h n show ?thesis
    by (simp add: Let_def accepted_int_def accepted_float_def)
qed

text \<open>
  C2, where the code departs from it. With \<^verbatim>\<open>lessFlatFilterSize\<close> specified as NaN and
  nothing else specified, on a default configuration, the specified parameter is not at
  least 0.001, so not every specified parameter satisfies its range; yet
  \<^verbatim>\<open>parseParams\<close> returns true, and stores the NaN. The test \<^verbatim>\<open>fParam < 0.001\<close> is false
  for NaN, so the block takes the branch that accepts. The same holds for
  \<^verbatim>\<open>surfaceCurvatureThreshold\<close>.
\<close>

theorem parseParams_accepts_NaN:
  "(let nh = \<lparr> getParam_int = Map.empty,
               getParam_float = [''lessFlatFilterSize'' \<mapsto> NaN] \<rparr>;
        nh' = \<lparr> getParam_int = Map.empty,
                getParam_float = [''surfaceCurvatureThreshold'' \<mapsto> NaN] \<rparr>
    in \<not> float_ge NaN 0.001 \<and>
       \<not> all_specified_valid nh RegistrationParams_default \<and>
       fst (parseParams nh RegistrationParams_default) = True \<and>
       lessFlatFilterSize (snd (parseParams nh RegistrationParams_default)) = NaN \<and>
       \<not> all_specified_valid nh' RegistrationParams_default \<and>
       fst (parseParams nh' RegistrationParams_default) = True \<and>
       surfaceCurvatureThreshold (snd (parseParams nh' RegistrationParams_default)) = NaN)"
  by (simp add: Let_def parseParams_def all_specified_valid_def int_param_ok_def
        float_param_ok_def RegistrationParams_default_def RegistrationParams_ctor_def)

text \<open>
  C9. When \<^verbatim>\<open>parseParams\<close> reads a \<^verbatim>\<open>maxCornerSharp\<close> parameter \<open>m\<close> that is at least 1,
  it stores \<open>m\<close> and, in the same call, ten times \<open>m\<close> in \<^verbatim>\<open>maxCornerLessSharp\<close>. A
  specified \<^verbatim>\<open>maxCornerLessSharp\<close> is read after that: it replaces the ten times \<open>m\<close>
  when it is at least \<open>m\<close>, and makes the call fail when it is below \<open>m\<close>. The prior
  \<^verbatim>\<open>maxCornerSharp\<close> plays no part. The product is that of \<^verbatim>\<open>int\<close>, which is the
  mathematical one when it fits into 32 bits.
\<close>

theorem parseParams_maxCornerSharp_then_less_sharp:
  assumes "getParam_int nh ''maxCornerSharp'' = Some m" and "1 \<le> sint m"
  shows "maxCornerSharp (snd (parseParams nh p)) = m \<and>
    maxCornerLessSharp (snd (parseParams nh p)) =
      (case getParam_int nh ''maxCornerLessSharp'' of
         None \<Rightarrow> 10 * m
       | Some l \<Rightarrow> if sint l < sint m then 10 * m else l) \<and>
    (fst (parseParams nh p) \<longrightarrow> int_param_ok nh ''maxCornerLessSharp'' (sint m)) \<and>
    (getParam_int nh ''maxCornerLessSharp'' = None \<and> 10 * sint m < 2 ^ 31 \<longrightarrow>
       sint (maxCornerLessSharp (snd (parseParams nh p))) = 10 * sint m)"
proof -
  have neg: "- (2 ^ 31) \<le> 10 * sint m" using assms(2) by simp
  show ?thesis
    using assms neg
    by (simp add: parseParams_struct accepted_int_def all_tests_pass_def sint_times10
          split: option.split)
qed

text \<open>
  The witness: on a default configuration, whose \<^verbatim>\<open>maxCornerSharp\<close> is 2, the parameters
  \<^verbatim>\<open>maxCornerSharp\<close> = 5 and \<^verbatim>\<open>maxCornerLessSharp\<close> = 3 fail, although 3 is not below 2,
  and leave 50; on a configuration whose \<^verbatim>\<open>maxCornerSharp\<close> is 50, the parameters 5 and
  7 are accepted, although 7 is below 50.
\<close>

theorem parseParams_maxCornerSharp_then_less_sharp_witness:
  "(let nh = \<lparr> getParam_int = [''maxCornerSharp'' \<mapsto> 5, ''maxCornerLessSharp'' \<mapsto> 3],
               getParam_float = Map.empty \<rparr>;
        nh' = \<lparr> getParam_int = [''maxCornerSharp'' \<mapsto> 5, ''maxCornerLessSharp'' \<mapsto> 7],
               getParam_float = Map.empty \<rparr>;
        nh'' = \<lparr> getParam_int = [''maxCornerSharp'' \<mapsto> 5], getParam_float = Map.empty \<rparr>;
        p = RegistrationParams_default;
        p' = RegistrationParams_ctor 6 5 50 4 (Finite 0.2) (Finite 0.1)
    in getParam_int nh ''maxCornerSharp'' = Some 5 \<and> 1 \<le> sint (5 :: int32) \<and>
       maxCornerSharp p = 2 \<and>
       \<not> fst (parseParams nh p) \<and>
       maxCornerSharp (snd (parseParams nh p)) = 5 \<and>
       maxCornerLessSharp (snd (parseParams nh p)) = 50 \<and>
       getParam_int nh' ''maxCornerSharp'' = Some 5 \<and>
       maxCornerSharp p' = 50 \<and>
       maxCornerLessSharp (snd (parseParams nh' p')) = 7 \<and>
       getParam_int nh'' ''maxCornerSharp'' = Some 5 \<and>
       getParam_int nh'' ''maxCornerLessSharp'' = None \<and> 10 * sint (5 :: int32) < 2 ^ 31 \<and>
       sint (maxCornerLessSharp (snd (parseParams nh'' p))) = 50)"
proof -
  let ?nh = "\<lparr> getParam_int = [''maxCornerSharp'' \<mapsto> 5, ''maxCornerLessSharp'' \<mapsto> 3],
               getParam_float = Map.empty \<rparr>"
  let ?nh' = "\<lparr> getParam_int = [''maxCornerSharp'' \<mapsto> 5, ''maxCornerLessSharp'' \<mapsto> 7],
               getParam_float = Map.empty \<rparr>"
  let ?nh'' = "\<lparr> getParam_int = [''maxCornerSharp'' \<mapsto> (5 :: int32)],
               getParam_float = Map.empty \<rparr>"
  have a: "getParam_int ?nh ''maxCornerSharp'' = Some 5"
    and a': "getParam_int ?nh' ''maxCornerSharp'' = Some 5"
    and a'': "getParam_int ?nh'' ''maxCornerSharp'' = Some 5"
    and b: "1 \<le> sint (5 :: int32)"
    by simp_all
  from parseParams_maxCornerSharp_then_less_sharp [OF a b, of RegistrationParams_default]
    parseParams_maxCornerSharp_then_less_sharp
      [OF a' b, of "RegistrationParams_ctor 6 5 50 4 (Finite 0.2) (Finite 0.1)"]
    parseParams_maxCornerSharp_then_less_sharp [OF a'' b, of RegistrationParams_default]
  show ?thesis
    by (simp add: Let_def int_param_ok_def RegistrationParams_default_def
          RegistrationParams_ctor_def)
qed

subsection \<open>Interpolating IMU states\<close>

text \<open>
  C3. For every pair of IMU states and every ratio, \<^verbatim>\<open>interpolate\<close> blends the yaw along
  the shorter arc: when the start yaw exceeds the end yaw by more than \<open>\<pi>\<close> the end yaw
  is taken \<open>2\<pi>\<close> higher, when it is below it by more than \<open>\<pi>\<close> the end yaw is taken
  \<open>2\<pi>\<close> lower, and otherwise the blend is the plain linear one. For the start yaw
  \<open>\<pi> - 0.1\<close>, the end yaw \<open>-\<pi> + 0.1\<close> and the ratio 0.5 the result is \<open>\<pi>\<close>, not 0. For
  two yaws that satisfy the invariant of an angle and are more than \<open>\<pi>\<close> apart, and a
  ratio between 0 and 1, the result is away from the start yaw by the ratio's share
  of the shorter arc, which is less than \<open>\<pi>\<close>, and none of its representatives modulo
  \<open>2\<pi>\<close> lies strictly between the two yaws, which is where the long arc runs.
\<close>

theorem interpolate_yaw_shorter_arc:
  "rad (yaw (interpolate s e r res)) =
     (if rad (yaw s) - rad (yaw e) > pi then
        rad (yaw s) * (1 - r) + (rad (yaw e) + 2 * pi) * r
      else if rad (yaw s) - rad (yaw e) < - pi then
        rad (yaw s) * (1 - r) + (rad (yaw e) - 2 * pi) * r
      else rad (yaw s) * (1 - r) + rad (yaw e) * r) \<and>
   (rad (yaw s) = pi - 0.1 \<and> rad (yaw e) = - pi + 0.1 \<and> r = 0.5 \<longrightarrow>
      rad (yaw (interpolate s e r res)) = pi \<and> rad (yaw (interpolate s e r res)) \<noteq> 0) \<and>
   (Angle_inv (yaw s) \<and> Angle_inv (yaw e) \<and> pi < \<bar>rad (yaw s) - rad (yaw e)\<bar> \<and>
    0 \<le> r \<and> r \<le> 1 \<longrightarrow>
      \<bar>rad (yaw (interpolate s e r res)) - rad (yaw s)\<bar> =
        r * (2 * pi - \<bar>rad (yaw s) - rad (yaw e)\<bar>) \<and>
      \<bar>rad (yaw (interpolate s e r res)) - rad (yaw s)\<bar> < pi \<and>
      (\<forall>k::int. \<not> (min (rad (yaw s)) (rad (yaw e)) <
                      rad (yaw (interpolate s e r res)) + 2 * pi * of_int k \<and>
                    rad (yaw (interpolate s e r res)) + 2 * pi * of_int k <
                      max (rad (yaw s)) (rad (yaw e)))))"
proof (intro conjI impI)
  show "rad (yaw (interpolate s e r res)) =
     (if rad (yaw s) - rad (yaw e) > pi then
        rad (yaw s) * (1 - r) + (rad (yaw e) + 2 * pi) * r
      else if rad (yaw s) - rad (yaw e) < - pi then
        rad (yaw s) * (1 - r) + (rad (yaw e) - 2 * pi) * r
      else rad (yaw s) * (1 - r) + rad (yaw e) * r)"
    by (rule interpolate_yaw_rad)
next
  assume a: "rad (yaw s) = pi - 0.1 \<and> rad (yaw e) = - pi + 0.1 \<and> r = 0.5"
  then have ys: "rad (yaw s) = pi - 0.1" and ye: "rad (yaw e) = - pi + 0.1" and r: "r = 0.5"
    by simp_all
  have "pi < pi - 0.1 - (- pi + 0.1)" using pi_ge_two by simp
  then show "rad (yaw (interpolate s e r res)) = pi"
    by (simp add: interpolate_yaw_rad ys ye r algebra_simps)
  then show "rad (yaw (interpolate s e r res)) \<noteq> 0" by simp
next
  assume a: "Angle_inv (yaw s) \<and> Angle_inv (yaw e) \<and> pi < \<bar>rad (yaw s) - rad (yaw e)\<bar> \<and>
    0 \<le> r \<and> r \<le> 1"
  then have inv: "- pi < rad (yaw s)" "rad (yaw s) \<le> pi" "- pi < rad (yaw e)" "rad (yaw e) \<le> pi"
    and r: "0 \<le> r" "r \<le> 1"
    by (simp_all add: Angle_inv_def)
  from a consider (up) "pi < rad (yaw s) - rad (yaw e)" | (down) "rad (yaw s) - rad (yaw e) < - pi"
    by linarith
  then have "\<bar>rad (yaw (interpolate s e r res)) - rad (yaw s)\<bar> =
        r * (2 * pi - \<bar>rad (yaw s) - rad (yaw e)\<bar>) \<and>
      \<bar>rad (yaw (interpolate s e r res)) - rad (yaw s)\<bar> < pi \<and>
      (\<forall>k::int. \<not> (min (rad (yaw s)) (rad (yaw e)) <
                      rad (yaw (interpolate s e r res)) + 2 * pi * of_int k \<and>
                    rad (yaw (interpolate s e r res)) + 2 * pi * of_int k <
                      max (rad (yaw s)) (rad (yaw e))))"
  proof cases
    case up
    then have y: "rad (yaw (interpolate s e r res)) =
        rad (yaw s) * (1 - r) + (rad (yaw e) + 2 * pi) * r"
      by (simp add: interpolate_yaw_rad)
    show ?thesis
      unfolding y
      using blend_towards_upper [OF inv(3) inv(2) up r] by blast
  next
    case down
    then have "\<not> pi < rad (yaw s) - rad (yaw e)" using pi_gt_zero by linarith
    with down have y: "rad (yaw (interpolate s e r res)) =
        rad (yaw s) * (1 - r) + (rad (yaw e) - 2 * pi) * r"
      by (simp add: interpolate_yaw_rad)
    show ?thesis
      unfolding y
      using blend_towards_lower [OF inv(1) inv(4) down r] by blast
  qed
  then show "\<bar>rad (yaw (interpolate s e r res)) - rad (yaw s)\<bar> =
        r * (2 * pi - \<bar>rad (yaw s) - rad (yaw e)\<bar>)"
    and "\<bar>rad (yaw (interpolate s e r res)) - rad (yaw s)\<bar> < pi"
    and "\<forall>k::int. \<not> (min (rad (yaw s)) (rad (yaw e)) <
                      rad (yaw (interpolate s e r res)) + 2 * pi * of_int k \<and>
                    rad (yaw (interpolate s e r res)) + 2 * pi * of_int k <
                      max (rad (yaw s)) (rad (yaw e)))"
    by blast+
qed

theorem interpolate_yaw_shorter_arc_witness:
  "(let z = Vector3 0 0 0;
        s = \<lparr> stamp = \<lparr> sec = 0, nsec = 0 \<rparr>, roll = Angle 0, pitch = Angle 0,
              yaw = Angle (pi - 0.1), position = z, velocity = z, acceleration = z \<rparr>;
        e = s\<lparr> yaw := Angle (- pi + 0.1) \<rparr>
    in Angle_inv (yaw s) \<and> Angle_inv (yaw e) \<and> pi < \<bar>rad (yaw s) - rad (yaw e)\<bar> \<and>
       rad (yaw (interpolate s e 0.5 s)) = pi \<and>
       \<bar>rad (yaw (interpolate s e 0.5 s)) - rad (yaw s)\<bar> < pi \<and>
       \<not> (min (rad (yaw s)) (rad (yaw e)) <
            rad (yaw (interpolate s e 0.5 s)) + 2 * pi * of_int 0 \<and>
          rad (yaw (interpolate s e 0.5 s)) + 2 * pi * of_int 0 <
            max (rad (yaw s)) (rad (yaw e))))"
proof -
  let ?z = "Vector3 0 0 0"
  let ?s = "\<lparr> stamp = \<lparr> sec = 0, nsec = 0 \<rparr>, roll = Angle 0, pitch = Angle 0,
              yaw = Angle (pi - 0.1), position = ?z, velocity = ?z, acceleration = ?z \<rparr>"
  let ?e = "?s\<lparr> yaw := Angle (- pi + 0.1) \<rparr>"
  have inv: "Angle_inv (yaw ?s)" "Angle_inv (yaw ?e)"
    using pi_ge_two by (simp_all add: Angle_inv_def)
  have far: "pi < \<bar>rad (yaw ?s) - rad (yaw ?e)\<bar>"
    using pi_ge_two by simp
  have ex: "rad (yaw ?s) = pi - 0.1 \<and> rad (yaw ?e) = - pi + 0.1 \<and> (0.5::real) = 0.5"
    by simp
  have r: "(0::real) \<le> 0.5" "(0.5::real) \<le> 1" by simp_all
  note t = interpolate_yaw_shorter_arc [of ?s ?e "0.5" ?s]
  from t ex have 1: "rad (yaw (interpolate ?s ?e 0.5 ?s)) = pi" by blast
  from t inv far r have 2: "\<bar>rad (yaw (interpolate ?s ?e 0.5 ?s)) - rad (yaw ?s)\<bar> < pi"
    and 3: "\<forall>k::int. \<not> (min (rad (yaw ?s)) (rad (yaw ?e)) <
                           rad (yaw (interpolate ?s ?e 0.5 ?s)) + 2 * pi * of_int k \<and>
                         rad (yaw (interpolate ?s ?e 0.5 ?s)) + 2 * pi * of_int k <
                           max (rad (yaw ?s)) (rad (yaw ?e)))"
    by blast+
  from 3 have 4: "\<not> (min (rad (yaw ?s)) (rad (yaw ?e)) <
                       rad (yaw (interpolate ?s ?e 0.5 ?s)) + 2 * pi * of_int 0 \<and>
                     rad (yaw (interpolate ?s ?e 0.5 ?s)) + 2 * pi * of_int 0 <
                       max (rad (yaw ?s)) (rad (yaw ?e)))"
    by (rule spec)
  show ?thesis
    unfolding Let_def using inv far 1 2 4 by blast
qed

text \<open>
  C4. For every pair of IMU states and every ratio, \<^verbatim>\<open>interpolate\<close> sets the roll, the
  pitch, the position and the velocity of the result to the linear blend
  start \<open>\<cdot>\<close> (1 - ratio) + end \<open>\<cdot>\<close> ratio, component by component for the two vectors.
\<close>

theorem interpolate_linear_blend:
  "rad (roll (interpolate s e r res)) = rad (roll s) * (1 - r) + rad (roll e) * r \<and>
   rad (pitch (interpolate s e r res)) = rad (pitch s) * (1 - r) + rad (pitch e) * r \<and>
   vec_x (position (interpolate s e r res)) =
     vec_x (position s) * (1 - r) + vec_x (position e) * r \<and>
   vec_y (position (interpolate s e r res)) =
     vec_y (position s) * (1 - r) + vec_y (position e) * r \<and>
   vec_z (position (interpolate s e r res)) =
     vec_z (position s) * (1 - r) + vec_z (position e) * r \<and>
   vec_x (velocity (interpolate s e r res)) =
     vec_x (velocity s) * (1 - r) + vec_x (velocity e) * r \<and>
   vec_y (velocity (interpolate s e r res)) =
     vec_y (velocity s) * (1 - r) + vec_y (velocity e) * r \<and>
   vec_z (velocity (interpolate s e r res)) =
     vec_z (velocity s) * (1 - r) + vec_z (velocity e) * r"
  by (simp add: interpolate_def Let_def Vector3_scale_def Vector3_add_def)

text \<open>
  C5. \<^verbatim>\<open>interpolate\<close> writes only the roll, the pitch, the yaw, the velocity and the
  position of the result: the acceleration and the stamp of the result are what they
  were before the call, and the result differs from what it was in those five fields
  at most.
\<close>

theorem interpolate_writes_five_fields:
  "acceleration (interpolate s e r res) = acceleration res \<and>
   stamp (interpolate s e r res) = stamp res \<and>
   interpolate s e r res =
     res\<lparr> roll := roll (interpolate s e r res),
          pitch := pitch (interpolate s e r res),
          yaw := yaw (interpolate s e r res),
          velocity := velocity (interpolate s e r res),
          position := position (interpolate s e r res) \<rparr>"
  by (simp add: interpolate_def Let_def)

subsection \<open>Defaults and constructors\<close>

text \<open>
  C6. A default-constructed \<^verbatim>\<open>RegistrationParams\<close> has \<^verbatim>\<open>nFeatureRegions\<close> = 6,
  \<^verbatim>\<open>curvatureRegion\<close> = 5, \<^verbatim>\<open>maxCornerSharp\<close> = 2, \<^verbatim>\<open>maxCornerLessSharp\<close> = 20, which is
  ten times \<^verbatim>\<open>maxCornerSharp\<close>, \<^verbatim>\<open>maxSurfaceFlat\<close> = 4, \<^verbatim>\<open>surfaceCurvatureThreshold\<close> = 0.1
  and \<^verbatim>\<open>lessFlatFilterSize\<close> = 0.2.
\<close>

theorem RegistrationParams_default_values:
  "nFeatureRegions RegistrationParams_default = 6 \<and>
   curvatureRegion RegistrationParams_default = 5 \<and>
   maxCornerSharp RegistrationParams_default = 2 \<and>
   maxCornerLessSharp RegistrationParams_default = 20 \<and>
   sint (maxCornerLessSharp RegistrationParams_default) =
     10 * sint (maxCornerSharp RegistrationParams_default) \<and>
   maxSurfaceFlat RegistrationParams_default = 4 \<and>
   surfaceCurvatureThreshold RegistrationParams_default = Finite 0.1 \<and>
   lessFlatFilterSize RegistrationParams_default = Finite 0.2"
  by (simp add: RegistrationParams_default_def RegistrationParams_ctor_def)

text \<open>
  C7. The enumeration \<^verbatim>\<open>PointLabel\<close> assigns exactly the values \<^verbatim>\<open>CORNER_SHARP\<close> = 2,
  \<^verbatim>\<open>CORNER_LESS_SHARP\<close> = 1, \<^verbatim>\<open>SURFACE_LESS_FLAT\<close> = 0 and \<^verbatim>\<open>SURFACE_FLAT\<close> = -1: these
  four are all the values of a label, and no two labels share one.
\<close>

theorem PointLabel_values:
  "PointLabel_value CORNER_SHARP = 2 \<and>
   PointLabel_value CORNER_LESS_SHARP = 1 \<and>
   PointLabel_value SURFACE_LESS_FLAT = 0 \<and>
   PointLabel_value SURFACE_FLAT = - 1 \<and>
   range PointLabel_value = {2, 1, 0, - 1} \<and>
   inj PointLabel_value"
proof -
  have r: "range PointLabel_value = {2, 1, 0, - 1}"
  proof
    show "range PointLabel_value \<subseteq> {2, 1, 0, - 1}"
    proof
      fix v assume "v \<in> range PointLabel_value"
      then obtain l where "v = PointLabel_value l" by blast
      then show "v \<in> {2, 1, 0, - 1}" by (cases l) simp_all
    qed
    have "PointLabel_value CORNER_SHARP \<in> range PointLabel_value"
      "PointLabel_value CORNER_LESS_SHARP \<in> range PointLabel_value"
      "PointLabel_value SURFACE_LESS_FLAT \<in> range PointLabel_value"
      "PointLabel_value SURFACE_FLAT \<in> range PointLabel_value"
      by (rule rangeI)+
    then show "{2, 1, 0, - 1} \<subseteq> range PointLabel_value" by simp
  qed
  have i: "inj PointLabel_value"
  proof (rule injI)
    fix a b assume "PointLabel_value a = PointLabel_value b"
    then show "a = b" by (cases a; cases b) simp_all
  qed
  from r i show ?thesis by simp
qed

text \<open>
  C8. When the \<^verbatim>\<open>ScanRegistration\<close> object is constructed without an explicit
  \<^verbatim>\<open>imuHistorySize\<close>, its inertial history is created with capacity 200, and empty.
\<close>

theorem ScanRegistration_default_history_capacity:
  "capacity (imuHistory (ScanRegistration_ctor1 scanPeriod')) = 200 \<and>
   capacity (imuHistory (ScanRegistration_ctor2 scanPeriod' nScans')) = 200 \<and>
   buffer (imuHistory (ScanRegistration_ctor1 scanPeriod')) = [] \<and>
   buffer (imuHistory (ScanRegistration_ctor2 scanPeriod' nScans')) = []"
  by (simp add: ScanRegistration_ctor1_def ScanRegistration_ctor2_def ScanRegistration_ctor_def
        CircularBuffer_ctor_def)

text \<open>
  C10. The constructor of \<^verbatim>\<open>RegistrationParams\<close> validates nothing: for every argument
  tuple the fields are the arguments as given and \<^verbatim>\<open>maxCornerLessSharp\<close> is ten times
  \<^verbatim>\<open>maxCornerSharp_\<close>, in the arithmetic of \<^verbatim>\<open>int\<close>, which is the mathematical product
  when that fits into 32 bits. So a configuration outside the ranges can be
  constructed: \<^verbatim>\<open>nFeatureRegions\<close> = 0, or the negative \<^verbatim>\<open>maxCornerSharp_\<close> = -1, which
  gives the negative \<^verbatim>\<open>maxCornerLessSharp\<close> = -10.
\<close>

theorem RegistrationParams_ctor_no_validation:
  "nFeatureRegions (RegistrationParams_ctor n c m s l t) = n \<and>
   curvatureRegion (RegistrationParams_ctor n c m s l t) = c \<and>
   maxCornerSharp (RegistrationParams_ctor n c m s l t) = m \<and>
   maxSurfaceFlat (RegistrationParams_ctor n c m s l t) = s \<and>
   lessFlatFilterSize (RegistrationParams_ctor n c m s l t) = l \<and>
   surfaceCurvatureThreshold (RegistrationParams_ctor n c m s l t) = t \<and>
   maxCornerLessSharp (RegistrationParams_ctor n c m s l t) = 10 * m \<and>
   (- (2 ^ 31) \<le> 10 * sint m \<and> 10 * sint m < 2 ^ 31 \<longrightarrow>
      sint (maxCornerLessSharp (RegistrationParams_ctor n c m s l t)) = 10 * sint m) \<and>
   sint (nFeatureRegions (RegistrationParams_ctor 0 c m s l t)) < 1 \<and>
   sint (maxCornerSharp (RegistrationParams_ctor n c (- 1) s l t)) < 1 \<and>
   sint (maxCornerLessSharp (RegistrationParams_ctor n c (- 1) s l t)) = - 10"
  by (simp add: RegistrationParams_ctor_def sint_times10)

theorem RegistrationParams_ctor_no_validation_witness:
  "- (2 ^ 31) \<le> 10 * sint (- 3 :: int32) \<and> 10 * sint (- 3 :: int32) < 2 ^ 31 \<and>
   sint (maxCornerLessSharp (RegistrationParams_ctor 0 0 (- 3) 0 (Finite 0) (Finite 0))) = - 30 \<and>
   sint (maxCornerLessSharp (RegistrationParams_ctor 0 0 (- 3) 0 (Finite 0) (Finite 0))) <
     sint (maxCornerSharp (RegistrationParams_ctor 0 0 (- 3) 0 (Finite 0) (Finite 0))) \<and>
   sint (nFeatureRegions (RegistrationParams_ctor 0 0 (- 3) 0 (Finite 0) (Finite 0))) < 1"
  using RegistrationParams_ctor_no_validation [of 0 0 "- 3" 0 "Finite 0" "Finite 0"]
  by simp

end
